theory Spec2Isabelle
  imports Complex_Main "HOL-Library.AList"
begin

section \<open>Numbers\<close>

text \<open>
  JavaScript numbers, with the special values that the manager's arithmetic can
  produce (a division by a zero or missing \<open>transitionDuration\<close>) written out.
  Finite values are exact rationals: rounding is not modelled, and neither is the
  sign of zero (a zero divisor is taken as \<open>+0\<close>).
\<close>

datatype jsnum = Fin rat | PInf | NInf | NaN

fun jneg :: "jsnum \<Rightarrow> jsnum" where
  "jneg (Fin a) = Fin (- a)"
| "jneg PInf = NInf"
| "jneg NInf = PInf"
| "jneg NaN = NaN"

fun jadd :: "jsnum \<Rightarrow> jsnum \<Rightarrow> jsnum" where
  "jadd (Fin a) (Fin b) = Fin (a + b)"
| "jadd NaN _ = NaN"
| "jadd _ NaN = NaN"
| "jadd PInf NInf = NaN"
| "jadd NInf PInf = NaN"
| "jadd PInf _ = PInf"
| "jadd _ PInf = PInf"
| "jadd NInf _ = NInf"
| "jadd _ NInf = NInf"

definition jsub :: "jsnum \<Rightarrow> jsnum \<Rightarrow> jsnum" where
  "jsub a b = jadd a (jneg b)"

fun jdiv :: "jsnum \<Rightarrow> jsnum \<Rightarrow> jsnum" where
  "jdiv (Fin a) (Fin b) =
     (if b = 0 then (if a = 0 then NaN else if 0 < a then PInf else NInf)
      else Fin (a / b))"
| "jdiv NaN _ = NaN"
| "jdiv _ NaN = NaN"
| "jdiv (Fin a) PInf = Fin 0"
| "jdiv (Fin a) NInf = Fin 0"
| "jdiv PInf (Fin b) = (if b < 0 then NInf else PInf)"
| "jdiv NInf (Fin b) = (if b < 0 then PInf else NInf)"
| "jdiv PInf PInf = NaN"
| "jdiv PInf NInf = NaN"
| "jdiv NInf PInf = NaN"
| "jdiv NInf NInf = NaN"

text \<open>\<open>Math.min\<close>: \<open>NaN\<close> as soon as one argument is.\<close>

fun jmin :: "jsnum \<Rightarrow> jsnum \<Rightarrow> jsnum" where
  "jmin (Fin a) (Fin b) = Fin (min a b)"
| "jmin NaN _ = NaN"
| "jmin _ NaN = NaN"
| "jmin NInf _ = NInf"
| "jmin _ NInf = NInf"
| "jmin PInf b = b"
| "jmin a PInf = a"

text \<open>The comparisons \<open><\<close> and \<open>>=\<close>: false as soon as one side is \<open>NaN\<close>.\<close>

fun jlt :: "jsnum \<Rightarrow> jsnum \<Rightarrow> bool" where
  "jlt (Fin a) (Fin b) = (a < b)"
| "jlt NaN _ = False"
| "jlt _ NaN = False"
| "jlt _ NInf = False"
| "jlt NInf _ = True"
| "jlt PInf _ = False"
| "jlt _ PInf = True"

fun jge :: "jsnum \<Rightarrow> jsnum \<Rightarrow> bool" where
  "jge (Fin a) (Fin b) = (b \<le> a)"
| "jge NaN _ = False"
| "jge _ NaN = False"
| "jge _ NInf = True"
| "jge NInf _ = False"
| "jge PInf _ = True"
| "jge _ PInf = False"

text \<open>Reading a numeric property that may be missing: \<open>undefined\<close> becomes \<open>NaN\<close>.\<close>

definition num_of :: "jsnum option \<Rightarrow> jsnum" where
  "num_of v = (case v of None \<Rightarrow> NaN | Some n \<Rightarrow> n)"

text \<open>Truthiness of a boolean property that may be missing.\<close>

definition truthy :: "bool option \<Rightarrow> bool" where
  "truthy v = (case v of None \<Rightarrow> False | Some b \<Rightarrow> b)"

section \<open>Scene objects\<close>

datatype jsval = VNull | VBool bool | VNum jsnum | VStr string

record vec3 =
  vx :: jsnum
  vy :: jsnum
  vz :: jsnum

record rgb =
  red :: jsnum
  green :: jsnum
  blue :: jsnum

text \<open>A material; each of the four properties may be absent.\<close>

record material =
  emissive :: "rgb option"
  emissiveIntensity :: "jsnum option"
  opacity :: "jsnum option"
  color :: "rgb option"

record object3d =
  scale :: vec3
  rotation :: vec3
  position :: vec3
  material :: "material option"

type_synonym obj_ref = nat

section \<open>Easing\<close>

text \<open>
  The easing table of \<open>animations/easing.js\<close>, by name. An easing function is
  represented by the name of its table entry; an \<open>easing\<close> option that is itself a
  function is outside the model.
\<close>

definition easing_names :: "string list" where
  "easing_names = [''linear'', ''easeInQuad'', ''easeOutQuad'', ''easeInOutQuad'',
     ''easeOutCubic'', ''easeInCubic'', ''easeInOutCubic'', ''easeOutElastic'',
     ''easeOutBounce'']"

definition getEasing :: "string option \<Rightarrow> string" where
  "getEasing easingOrName =
     (case easingOrName of
        None \<Rightarrow> ''linear''
      | Some n \<Rightarrow> if n \<in> set easing_names then n else ''linear'')"

section \<open>Animation manager: data\<close>

text \<open>
  An options object. The four options the manager itself reads are typed as their
  JSDoc says and may be absent; \<open>easingFn\<close> is the resolved easing; \<open>extra\<close> holds
  every other key (the options of the animation type).
\<close>

record anim_options =
  loop :: "bool option"
  duration :: "jsnum option"
  easing :: "string option"
  transitionDuration :: "jsnum option"
  easingFn :: "string option"
  extra :: "string \<rightharpoonup> jsval"

text \<open>Object spread \<open>{...a, ...b}\<close>: a key of \<open>b\<close> wins.\<close>

definition over :: "'a option \<Rightarrow> 'a option \<Rightarrow> 'a option" where
  "over a b = (case b of None \<Rightarrow> a | Some v \<Rightarrow> Some v)"

definition spread :: "anim_options \<Rightarrow> anim_options \<Rightarrow> anim_options" where
  "spread a b =
     \<lparr> loop = over (loop a) (loop b),
       duration = over (duration a) (duration b),
       easing = over (easing a) (easing b),
       transitionDuration = over (transitionDuration a) (transitionDuration b),
       easingFn = over (easingFn a) (easingFn b),
       extra = extra a ++ extra b \<rparr>"

definition no_options :: anim_options where
  "no_options = \<lparr> loop = None, duration = None, easing = None,
     transitionDuration = None, easingFn = None, extra = Map.empty \<rparr>"

text \<open>The literal defaults of \<open>startAnimation\<close>.\<close>

definition base_options :: anim_options where
  "base_options = \<lparr> loop = Some True, duration = Some (Fin 1), easing = Some ''linear'',
     transitionDuration = Some (Fin (1 / 5)), easingFn = None, extra = Map.empty \<rparr>"

type_synonym anim_state = "string \<rightharpoonup> jsval"

text \<open>
  A call of a function of an animation type. \<open>update\<close> and \<open>init\<close> receive the target
  object, may change it in place, and either return the new per-instance state or
  throw; the object is given back as the call left it.
\<close>

datatype call_result = Returned object3d anim_state | Threw object3d

text \<open>
  A registered animation type. \<open>cleanup\<close> is only ever called inside a
  \<open>try\<close>/\<open>catch\<close> that logs, so all that is observable of it is the object as it
  left it.
\<close>

record anim_type =
  update :: "object3d \<Rightarrow> anim_state \<Rightarrow> jsnum \<Rightarrow> anim_options \<Rightarrow> jsnum \<Rightarrow> call_result"
  defaultOptions :: anim_options
  init :: "(object3d \<Rightarrow> anim_options \<Rightarrow> call_result) option"
  cleanup :: "(object3d \<Rightarrow> anim_state \<Rightarrow> anim_options \<Rightarrow> object3d) option"

record initial_values =
  init_scale :: vec3
  init_rotation :: vec3
  init_position :: vec3
  init_material :: "material option"

record anim_instance =
  inst_id :: int
  name :: string
  state :: anim_state
  options :: anim_options
  startTime :: rat
  stopping :: bool
  stopStartTime :: rat
  initialValues :: initial_values
  transitionProgress :: jsnum

text \<open>
  The manager together with the two module-level variables (\<open>objectAnimations\<close>,
  \<open>animationIdCounter\<close>) and the scene objects it writes to. \<open>_animatedObjects\<close> is a
  \<open>Set\<close>, kept in insertion order. The clock (\<open>performance.now() / 1000\<close>) is an
  argument of every operation that reads it. Console output is not modelled.
\<close>

record manager =
  animationTypes :: "string \<rightharpoonup> anim_type"
  animatedObjects :: "obj_ref list"
  objectAnimations :: "obj_ref \<rightharpoonup> anim_instance list"
  animationIdCounter :: int
  objects :: "obj_ref \<Rightarrow> object3d"

section \<open>Animation manager: operations\<close>

datatype error = InvalidName | MissingUpdate

text \<open>The argument of \<open>registerAnimation\<close>: every property may be missing.\<close>

record anim_config =
  cfg_update :: "(object3d \<Rightarrow> anim_state \<Rightarrow> jsnum \<Rightarrow> anim_options \<Rightarrow> jsnum \<Rightarrow> call_result) option"
  cfg_defaultOptions :: "anim_options option"
  cfg_init :: "(object3d \<Rightarrow> anim_options \<Rightarrow> call_result) option"
  cfg_cleanup :: "(object3d \<Rightarrow> anim_state \<Rightarrow> anim_options \<Rightarrow> object3d) option"

definition registerAnimation :: "manager \<Rightarrow> string \<Rightarrow> anim_config \<Rightarrow> error + manager" where
  "registerAnimation s n config =
     (if n = [] then Inl InvalidName
      else case cfg_update config of
        None \<Rightarrow> Inl MissingUpdate
      | Some u \<Rightarrow>
          Inr (s\<lparr>animationTypes := (animationTypes s)(n \<mapsto>
            \<lparr> update = u,
              defaultOptions = (case cfg_defaultOptions config of None \<Rightarrow> no_options | Some d \<Rightarrow> d),
              init = cfg_init config,
              cleanup = cfg_cleanup config \<rparr>)\<rparr>))"

definition unregisterAnimation :: "manager \<Rightarrow> string \<Rightarrow> manager \<times> bool" where
  "unregisterAnimation s n =
     (s\<lparr>animationTypes := (animationTypes s)(n := None)\<rparr>, animationTypes s n \<noteq> None)"

definition hasAnimation :: "manager \<Rightarrow> string \<Rightarrow> bool" where
  "hasAnimation s n = (animationTypes s n \<noteq> None)"

text \<open>\<open>Set.add\<close> and \<open>Set.delete\<close> on the insertion-ordered set.\<close>

definition set_add :: "obj_ref \<Rightarrow> obj_ref list \<Rightarrow> obj_ref list" where
  "set_add ob xs = (if ob \<in> set xs then xs else xs @ [ob])"

definition set_delete :: "obj_ref \<Rightarrow> obj_ref list \<Rightarrow> obj_ref list" where
  "set_delete ob xs = removeAll ob xs"

text \<open>Changing the first element that satisfies \<open>P\<close> (the one \<open>Array.find\<close> returns).\<close>

fun update_first :: "('a \<Rightarrow> bool) \<Rightarrow> ('a \<Rightarrow> 'a) \<Rightarrow> 'a list \<Rightarrow> 'a list" where
  "update_first P f [] = []"
| "update_first P f (x # xs) = (if P x then f x # xs else x # update_first P f xs)"

definition capture :: "object3d \<Rightarrow> initial_values" where
  "capture obj =
     \<lparr> init_scale = scale obj, init_rotation = rotation obj, init_position = position obj,
       init_material = (case material obj of
          None \<Rightarrow> None
        | Some mat \<Rightarrow> Some \<lparr> emissive = emissive mat, emissiveIntensity = emissiveIntensity mat,
            opacity = opacity mat, color = color mat \<rparr>) \<rparr>"

text \<open>
  \<open>startAnimation(object, animationName, options)\<close> at clock reading \<open>now\<close>. A \<open>null\<close>
  object is \<open>None\<close>. The result is \<open>Inr\<close> of the new state and the returned id, or
  \<open>Inl\<close> of the state left behind when \<open>init\<close> throws (the exception leaves
  \<open>startAnimation\<close>).
\<close>

definition startAnimation ::
  "manager \<Rightarrow> obj_ref option \<Rightarrow> string \<Rightarrow> anim_options \<Rightarrow> rat \<Rightarrow> manager + manager \<times> int" where
  "startAnimation s object animationName opts now =
     (case object of
        None \<Rightarrow> Inr (s, - 1)
      | Some ob \<Rightarrow>
         (case animationTypes s animationName of
            None \<Rightarrow> Inr (s, - 1)
          | Some animType \<Rightarrow>
             let animations = (case objectAnimations s ob of None \<Rightarrow> [] | Some l \<Rightarrow> l);
                 s1 = s\<lparr>objectAnimations := (objectAnimations s)(ob \<mapsto> animations)\<rparr>;
                 running = (\<lambda>a. name a = animationName \<and> \<not> stopping a)
             in (case find running animations of
                   Some existing \<Rightarrow>
                     Inr (s1\<lparr>objectAnimations := (objectAnimations s1)(ob \<mapsto>
                            update_first running
                              (\<lambda>a. a\<lparr>options := spread (defaultOptions animType) opts\<rparr>)
                              animations)\<rparr>,
                          inst_id existing)
                 | None \<Rightarrow>
                     let merged = spread (spread base_options (defaultOptions animType)) opts;
                         mergedOptions = merged\<lparr>easingFn := Some (getEasing (easing merged))\<rparr>;
                         started = (case init animType of
                            None \<Rightarrow> Returned (objects s1 ob) Map.empty
                          | Some f \<Rightarrow> f (objects s1 ob) mergedOptions)
                     in (case started of
                           Threw obj' \<Rightarrow> Inl (s1\<lparr>objects := (objects s1)(ob := obj')\<rparr>)
                         | Returned obj' initialState \<Rightarrow>
                             let inst = \<lparr> inst_id = animationIdCounter s1 + 1,
                                   name = animationName,
                                   state = initialState,
                                   options = mergedOptions,
                                   startTime = now,
                                   stopping = False,
                                   stopStartTime = 0,
                                   initialValues = capture obj',
                                   transitionProgress = Fin 0 \<rparr>
                             in Inr (s1\<lparr>objects := (objects s1)(ob := obj'),
                                       objectAnimations := (objectAnimations s1)(ob \<mapsto> animations @ [inst]),
                                       animatedObjects := set_add ob (animatedObjects s1),
                                       animationIdCounter := animationIdCounter s1 + 1\<rparr>,
                                     inst_id inst)))))"

text \<open>Writing the snapshot of a material back into the current one.\<close>

definition restore_material :: "material \<Rightarrow> material \<Rightarrow> material" where
  "restore_material im mat =
     (let m1 = (case (emissive im, emissive mat) of
                  (Some e, Some _) \<Rightarrow> mat\<lparr>emissive := Some e\<rparr>
                | _ \<Rightarrow> mat);
          m2 = (case emissiveIntensity im of
                  Some v \<Rightarrow> m1\<lparr>emissiveIntensity := Some v\<rparr>
                | None \<Rightarrow> m1);
          m3 = (case opacity im of
                  Some v \<Rightarrow> m2\<lparr>opacity := Some v\<rparr>
                | None \<Rightarrow> m2)
      in (case (color im, color m3) of
            (Some c, Some _) \<Rightarrow> m3\<lparr>color := Some c\<rparr>
          | _ \<Rightarrow> m3))"

definition restore :: "initial_values \<Rightarrow> object3d \<Rightarrow> object3d" where
  "restore initial obj =
     (let obj1 = obj\<lparr>scale := init_scale initial, rotation := init_rotation initial\<rparr>
      in (case (init_material initial, material obj1) of
            (Some im, Some mat) \<Rightarrow> obj1\<lparr>material := Some (restore_material im mat)\<rparr>
          | _ \<Rightarrow> obj1))"

text \<open>\<open>_cleanupAnimation\<close>: the type's cleanup, if the type is still registered and
  has one, then the restoration. The position is not written.\<close>

definition run_cleanup :: "(string \<rightharpoonup> anim_type) \<Rightarrow> object3d \<Rightarrow> anim_instance \<Rightarrow> object3d" where
  "run_cleanup types obj anim =
     (case types (name anim) of
        None \<Rightarrow> obj
      | Some animType \<Rightarrow>
         (case cleanup animType of
            None \<Rightarrow> obj
          | Some c \<Rightarrow> c obj (state anim) (options anim)))"

definition cleanupAnimation :: "(string \<rightharpoonup> anim_type) \<Rightarrow> object3d \<Rightarrow> anim_instance \<Rightarrow> object3d" where
  "cleanupAnimation types obj anim = restore (initialValues anim) (run_cleanup types obj anim)"

text \<open>The second argument of \<open>stopAnimation\<close>: omitted, a name, or an instance id.\<close>

datatype selector = Every | ByName string | ById int

fun shouldStop :: "selector \<Rightarrow> anim_instance \<Rightarrow> bool" where
  "shouldStop Every anim = True"
| "shouldStop (ByName n) anim = (name anim = n)"
| "shouldStop (ById i) anim = (inst_id anim = i)"

text \<open>
  The loop of \<open>stopAnimation\<close>. It runs from the last index down, so the rest of the
  list is handled before its head; an element spliced out is simply not kept.
\<close>

fun stop_animations ::
  "(string \<rightharpoonup> anim_type) \<Rightarrow> selector \<Rightarrow> bool \<Rightarrow> rat \<Rightarrow> object3d \<Rightarrow> anim_instance list
     \<Rightarrow> object3d \<times> anim_instance list" where
  "stop_animations types sel immediate now obj [] = (obj, [])"
| "stop_animations types sel immediate now obj (anim # rest) =
     (case stop_animations types sel immediate now obj rest of
        (obj1, rest') \<Rightarrow>
          if shouldStop sel anim \<and> \<not> stopping anim then
            (if immediate then (cleanupAnimation types obj1 anim, rest')
             else (obj1, anim\<lparr>stopping := True, stopStartTime := now\<rparr> # rest'))
          else (obj1, anim # rest'))"

definition stopAnimation :: "manager \<Rightarrow> obj_ref option \<Rightarrow> selector \<Rightarrow> bool \<Rightarrow> rat \<Rightarrow> manager" where
  "stopAnimation s object sel immediate now =
     (case object of
        None \<Rightarrow> s
      | Some ob \<Rightarrow>
         (case objectAnimations s ob of
            None \<Rightarrow> s
          | Some animations \<Rightarrow>
             if animations = [] then s
             else
               (case stop_animations (animationTypes s) sel immediate now (objects s ob) animations of
                  (obj', animations') \<Rightarrow>
                    let s1 = s\<lparr>objects := (objects s)(ob := obj'),
                               objectAnimations := (objectAnimations s)(ob \<mapsto> animations')\<rparr>
                    in if animations' = [] then
                         s1\<lparr>animatedObjects := set_delete ob (animatedObjects s1),
                            objectAnimations := (objectAnimations s1)(ob := None)\<rparr>
                       else s1)))"

definition stopAllAnimations :: "manager \<Rightarrow> obj_ref option \<Rightarrow> bool \<Rightarrow> rat \<Rightarrow> manager" where
  "stopAllAnimations s object immediate now = stopAnimation s object Every immediate now"

text \<open>\<open>isAnimating(object, animationName)\<close>; an omitted or empty name asks for any
  animation.\<close>

definition isAnimating :: "manager \<Rightarrow> obj_ref option \<Rightarrow> string option \<Rightarrow> bool" where
  "isAnimating s object animationName =
     (case object of
        None \<Rightarrow> False
      | Some ob \<Rightarrow>
         (case objectAnimations s ob of
            None \<Rightarrow> False
          | Some animations \<Rightarrow>
             if animations = [] then False
             else
               (case animationName of
                  Some n \<Rightarrow>
                    if n \<noteq> [] then list_ex (\<lambda>a. name a = n \<and> \<not> stopping a) animations
                    else list_ex (\<lambda>a. \<not> stopping a) animations
                | None \<Rightarrow> list_ex (\<lambda>a. \<not> stopping a) animations)))"

section \<open>Animation manager: the per-frame tick\<close>

text \<open>Step 1 of the loop body: the transition in.\<close>

definition transition_in :: "jsnum \<Rightarrow> anim_instance \<Rightarrow> anim_instance" where
  "transition_in deltaTime anim =
     (if jlt (transitionProgress anim) (Fin 1) \<and> \<not> stopping anim then
        anim\<lparr>transitionProgress :=
          jmin (Fin 1) (jadd (transitionProgress anim)
            (jdiv deltaTime (num_of (transitionDuration (options anim)))))\<rparr>
      else anim)"

definition stop_progress :: "rat \<Rightarrow> anim_instance \<Rightarrow> jsnum" where
  "stop_progress now anim =
     jmin (Fin 1) (jdiv (Fin (now - stopStartTime anim)) (num_of (transitionDuration (options anim))))"

text \<open>Step 2 of the loop body: the transition out. The stop is complete when the
  stop progress has reached 1; until then the progress is blended down.\<close>

definition stop_complete :: "rat \<Rightarrow> anim_instance \<Rightarrow> bool" where
  "stop_complete now anim = (stopping anim \<and> jge (stop_progress now anim) (Fin 1))"

definition fade_out :: "rat \<Rightarrow> anim_instance \<Rightarrow> anim_instance" where
  "fade_out now anim =
     (if stopping anim then anim\<lparr>transitionProgress := jsub (Fin 1) (stop_progress now anim)\<rparr>
      else anim)"

text \<open>Step 3: the duration check of a non-looping animation.\<close>

definition expired :: "rat \<Rightarrow> anim_instance \<Rightarrow> bool" where
  "expired now anim =
     (\<not> truthy (loop (options anim)) \<and>
      jge (Fin (now - startTime anim)) (num_of (duration (options anim))))"

definition check_duration :: "rat \<Rightarrow> anim_instance \<Rightarrow> anim_instance" where
  "check_duration now anim =
     (if expired now anim then anim\<lparr>stopping := True, stopStartTime := now\<rparr> else anim)"

text \<open>Steps 1 to 3 for an instance that is kept: the instance as \<open>update\<close> is called
  on it.\<close>

definition advance :: "rat \<Rightarrow> jsnum \<Rightarrow> anim_instance \<Rightarrow> anim_instance" where
  "advance now deltaTime anim = check_duration now (fade_out now (transition_in deltaTime anim))"

text \<open>
  The body of the inner loop of \<open>tick\<close> for one instance: the object as the body
  leaves it, and the instance if it is kept (\<open>None\<close> when it is spliced out).
\<close>

definition tick_instance ::
  "(string \<rightharpoonup> anim_type) \<Rightarrow> rat \<Rightarrow> jsnum \<Rightarrow> object3d \<Rightarrow> anim_instance
     \<Rightarrow> object3d \<times> anim_instance option" where
  "tick_instance types now deltaTime obj anim =
     (case types (name anim) of
        None \<Rightarrow> (obj, None)
      | Some animType \<Rightarrow>
         if stop_complete now (transition_in deltaTime anim) then
           (cleanupAnimation types obj (transition_in deltaTime anim), None)
         else
           let anim3 = advance now deltaTime anim
           in (case update animType obj (state anim3) deltaTime (options anim3)
                      (transitionProgress anim3) of
                 Returned obj' st \<Rightarrow> (obj', Some (anim3\<lparr>state := st\<rparr>))
               | Threw obj' \<Rightarrow> (obj', None)))"

text \<open>The inner loop, from the last index down: the rest of the list first.\<close>

fun tick_animations ::
  "(string \<rightharpoonup> anim_type) \<Rightarrow> rat \<Rightarrow> jsnum \<Rightarrow> object3d \<Rightarrow> anim_instance list
     \<Rightarrow> object3d \<times> anim_instance list" where
  "tick_animations types now deltaTime obj [] = (obj, [])"
| "tick_animations types now deltaTime obj (anim # rest) =
     (case tick_animations types now deltaTime obj rest of
        (obj1, rest') \<Rightarrow>
          (case tick_instance types now deltaTime obj1 anim of
             (obj2, None) \<Rightarrow> (obj2, rest')
           | (obj2, Some anim') \<Rightarrow> (obj2, anim' # rest')))"

text \<open>The body of the outer loop, for one animated object.\<close>

definition tick_object :: "rat \<Rightarrow> jsnum \<Rightarrow> manager \<Rightarrow> obj_ref \<Rightarrow> manager" where
  "tick_object now deltaTime s ob =
     (case objectAnimations s ob of
        None \<Rightarrow> s
      | Some animations \<Rightarrow>
         (case tick_animations (animationTypes s) now deltaTime (objects s ob) animations of
            (obj', animations') \<Rightarrow>
              let s1 = s\<lparr>objects := (objects s)(ob := obj'),
                         objectAnimations := (objectAnimations s)(ob \<mapsto> animations')\<rparr>
              in if animations' = [] then
                   s1\<lparr>animatedObjects := set_delete ob (animatedObjects s1),
                      objectAnimations := (objectAnimations s1)(ob := None)\<rparr>
                 else s1))"

text \<open>
  \<open>tick(deltaTime)\<close> at clock reading \<open>now\<close>. The only change the loop makes to the
  set it iterates is the deletion of the object being visited, so it visits the
  members the set had on entry, in insertion order.
\<close>

definition tick :: "manager \<Rightarrow> rat \<Rightarrow> jsnum \<Rightarrow> manager" where
  "tick s now deltaTime = foldl (tick_object now deltaTime) s (animatedObjects s)"

text \<open>Successive calls of \<open>tick\<close>, each given as its clock reading and its
  \<open>deltaTime\<close>.\<close>

fun ticks :: "manager \<Rightarrow> (rat \<times> jsnum) list \<Rightarrow> manager" where
  "ticks s [] = s"
| "ticks s ((now, deltaTime) # frames) = ticks (tick s now deltaTime) frames"

text \<open>The instances tracked for an object, and those of a type that are running
  (not stopping).\<close>

definition anims_of :: "manager \<Rightarrow> obj_ref \<Rightarrow> anim_instance list" where
  "anims_of s ob = (case objectAnimations s ob of None \<Rightarrow> [] | Some l \<Rightarrow> l)"

definition running :: "string \<Rightarrow> anim_instance \<Rightarrow> bool" where
  "running T a = (name a = T \<and> \<not> stopping a)"

section \<open>Node object factory\<close>

type_synonym ref = nat

text \<open>
  A key of a JavaScript \<open>Map\<close>: the caches are filled under string keys, and
  \<open>_disposeObject\<close> looks them up under an object reference.
\<close>

datatype cache_key = StrKey string | RefKey ref

text \<open>The \<open>material\<close> property of a mesh: absent, one material, or an array of them
  (the array has an identity of its own).\<close>

datatype mesh_material = NoMaterial | OneMaterial ref | MaterialArray ref "ref list"

record mesh =
  geometry :: "ref option"
  mesh_mat :: mesh_material
  visible :: bool

text \<open>
  What lies outside the factory: the scene objects, and the \<open>dispose()\<close> calls
  received by geometries and materials, most recent first.
\<close>

record world =
  meshes :: "ref \<Rightarrow> mesh"
  disposed :: "ref list"

definition dispose_resource :: "ref \<Rightarrow> world \<Rightarrow> world" where
  "dispose_resource r w = w\<lparr>disposed := r # disposed w\<rparr>"

text \<open>
  A JavaScript \<open>Map\<close> that the factory iterates is an association list in
  insertion order: \<open>get\<close> is \<open>map_of\<close>, \<open>set\<close> is \<open>AList.update\<close> (an existing key
  keeps its place, a new one goes last), \<open>delete\<close> is \<open>AList.delete\<close>.
\<close>

definition has :: "('k \<times> 'v) list \<Rightarrow> 'k \<Rightarrow> bool" where
  "has m k = (map_of m k \<noteq> None)"

text \<open>
  The part of the factory that a creator can reach (\<open>getGeometry\<close>, \<open>getMaterial\<close>)
  together with the world.
\<close>

record resources =
  geometryCache :: "(cache_key \<times> ref) list"
  materialCache :: "(cache_key \<times> ref) list"
  the_world :: world

text \<open>
  A \<open>createFn\<close> acts on the world and returns a resource, or throws (\<open>None\<close>).
  \<open>getGeometry\<close> and \<open>getMaterial\<close> let the exception through.
\<close>

type_synonym createFn = "world \<Rightarrow> ref option \<times> world"

definition getGeometry :: "cache_key \<Rightarrow> createFn \<Rightarrow> resources \<Rightarrow> ref option \<times> resources" where
  "getGeometry key createFn f =
     (if \<not> has (geometryCache f) key then
        (case createFn (the_world f) of
           (None, w) \<Rightarrow> (None, f\<lparr>the_world := w\<rparr>)
         | (Some g, w) \<Rightarrow>
             (Some g, f\<lparr>the_world := w, geometryCache := AList.update key g (geometryCache f)\<rparr>))
      else (map_of (geometryCache f) key, f))"

definition getMaterial :: "cache_key \<Rightarrow> createFn \<Rightarrow> resources \<Rightarrow> ref option \<times> resources" where
  "getMaterial key createFn f =
     (if \<not> has (materialCache f) key then
        (case createFn (the_world f) of
           (None, w) \<Rightarrow> (None, f\<lparr>the_world := w\<rparr>)
         | (Some m, w) \<Rightarrow>
             (Some m, f\<lparr>the_world := w, materialCache := AList.update key m (materialCache f)\<rparr>))
      else (map_of (materialCache f) key, f))"

text \<open>A node: its own identity, its \<open>id\<close> property if it has one, and its
  string-valued attributes.\<close>

datatype node_id = NumId int | StrId string

record node =
  node_ref :: ref
  node_id :: "node_id option"
  attrs :: "string \<rightharpoonup> string"

datatype node_key = IdKey node_id | NodeKey ref

text \<open>A creator builds an object for a node through the caches and the world, or
  throws (\<open>None\<close>).\<close>

type_synonym creator = "node \<Rightarrow> resources \<Rightarrow> ref option \<times> resources"

text \<open>A pool is an array: \<open>push\<close> appends, \<open>pop\<close> takes the last element.\<close>

record factory =
  typeRegistry :: "string \<rightharpoonup> creator"
  objectPools :: "(string \<times> ref list) list"
  activeObjects :: "node_key \<rightharpoonup> ref \<times> string"
  res :: resources

datatype factory_error = InvalidTypeName

definition registerType :: "factory \<Rightarrow> string \<Rightarrow> creator \<Rightarrow> factory_error + factory" where
  "registerType f typeName creatorFn =
     (if typeName = [] then Inl InvalidTypeName
      else
        let f1 = f\<lparr>typeRegistry := (typeRegistry f)(typeName \<mapsto> creatorFn)\<rparr>
        in Inr (if \<not> has (objectPools f1) typeName
                then f1\<lparr>objectPools := AList.update typeName [] (objectPools f1)\<rparr>
                else f1))"

definition set_visible :: "ref \<Rightarrow> bool \<Rightarrow> world \<Rightarrow> world" where
  "set_visible obj v w = w\<lparr>meshes := (meshes w)(obj := (meshes w obj)\<lparr>visible := v\<rparr>)\<rparr>"

text \<open>\<open>_disposeObject\<close>: the caches are asked whether they have the geometry, or the
  material, of the object as a key.\<close>

definition disposeObject :: "resources \<Rightarrow> ref \<Rightarrow> resources" where
  "disposeObject f obj =
     (let m = meshes (the_world f) obj;
          w1 = (case geometry m of
                  None \<Rightarrow> the_world f
                | Some g \<Rightarrow>
                    if \<not> has (geometryCache f) (RefKey g) then dispose_resource g (the_world f)
                    else the_world f);
          w2 = (case mesh_mat m of
                  NoMaterial \<Rightarrow> w1
                | OneMaterial r \<Rightarrow>
                    if \<not> has (materialCache f) (RefKey r) then dispose_resource r w1 else w1
                | MaterialArray a rs \<Rightarrow>
                    if \<not> has (materialCache f) (RefKey a)
                    then foldl (\<lambda>w r. dispose_resource r w) w1 rs
                    else w1)
      in f\<lparr>the_world := w2\<rparr>)"

definition dispose_pool :: "resources \<Rightarrow> ref list \<Rightarrow> resources" where
  "dispose_pool f pool = foldl disposeObject f pool"

definition unregisterType :: "factory \<Rightarrow> string \<Rightarrow> factory \<times> bool" where
  "unregisterType f typeName =
     (let f1 = (case map_of (objectPools f) typeName of
                  None \<Rightarrow> f
                | Some pool \<Rightarrow>
                    f\<lparr>res := dispose_pool (res f) pool,
                      objectPools := AList.delete typeName (objectPools f)\<rparr>)
      in (f1\<lparr>typeRegistry := (typeRegistry f1)(typeName := None)\<rparr>,
          typeRegistry f1 typeName \<noteq> None))"

text \<open>The default of the \<open>typeAttribute\<close> parameter.\<close>

definition nodeThreeObjectType :: string where
  "nodeThreeObjectType = ''nodeThreeObjectType''"

definition node_key_of :: "node \<Rightarrow> node_key" where
  "node_key_of n = (case node_id n of Some i \<Rightarrow> IdKey i | None \<Rightarrow> NodeKey (node_ref n))"

text \<open>\<open>createObject(node, THREE, typeAttribute)\<close>: the object returned (\<open>None\<close> for
  \<open>null\<close>) and the new state. An exception of the creator is caught.\<close>

definition createObject :: "factory \<Rightarrow> node \<Rightarrow> string \<Rightarrow> ref option \<times> factory" where
  "createObject f n typeAttribute =
     (case attrs n typeAttribute of
        None \<Rightarrow> (None, f)
      | Some typeName \<Rightarrow>
         if typeName = [] then (None, f)
         else
           (case typeRegistry f typeName of
              None \<Rightarrow> (None, f)
            | Some creatorFn \<Rightarrow>
               let track = (\<lambda>obj g.
                     (Some obj, g\<lparr>activeObjects := (activeObjects g)(node_key_of n \<mapsto> (obj, typeName))\<rparr>))
               in (case map_of (objectPools f) typeName of
                     Some (p # ps) \<Rightarrow>
                       let pool = p # ps; obj = last pool
                       in track obj
                            (f\<lparr>objectPools := AList.update typeName (butlast pool) (objectPools f),
                               res := (res f)\<lparr>the_world := set_visible obj True (the_world (res f))\<rparr>\<rparr>)
                   | _ \<Rightarrow>
                       (case creatorFn n (res f) of
                          (None, r) \<Rightarrow> (None, f\<lparr>res := r\<rparr>)
                        | (Some obj, r) \<Rightarrow> track obj (f\<lparr>res := r\<rparr>)))))"

definition releaseObject :: "factory \<Rightarrow> node_key \<Rightarrow> factory" where
  "releaseObject f nodeId =
     (case activeObjects f nodeId of
        None \<Rightarrow> f
      | Some (obj, typeName) \<Rightarrow>
         let f1 = f\<lparr>res := (res f)\<lparr>the_world := set_visible obj False (the_world (res f))\<rparr>\<rparr>;
             f2 = (case map_of (objectPools f1) typeName of
                     None \<Rightarrow> f1
                   | Some pool \<Rightarrow>
                       f1\<lparr>objectPools := AList.update typeName (pool @ [obj]) (objectPools f1)\<rparr>)
         in f2\<lparr>activeObjects := (activeObjects f2)(nodeId := None)\<rparr>)"

definition clearPools :: "factory \<Rightarrow> factory" where
  "clearPools f =
     f\<lparr>res := foldl (\<lambda>r (typeName, pool). dispose_pool r pool) (res f) (objectPools f),
       objectPools := map (\<lambda>(typeName, pool). (typeName, [])) (objectPools f)\<rparr>"

definition clear :: "factory \<Rightarrow> factory" where
  "clear f =
     (clearPools f)\<lparr>typeRegistry := Map.empty, objectPools := [], activeObjects := Map.empty\<rparr>"

definition disposeCache :: "factory \<Rightarrow> factory" where
  "disposeCache f =
     (let w1 = foldl (\<lambda>w (k, geom). dispose_resource geom w) (the_world (res f))
                 (geometryCache (res f));
          w2 = foldl (\<lambda>w (k, mat). dispose_resource mat w) w1 (materialCache (res f))
      in f\<lparr>res := \<lparr> geometryCache = [], materialCache = [], the_world = w2 \<rparr>\<rparr>)"

definition dispose :: "factory \<Rightarrow> factory" where
  "dispose f = disposeCache (clear f)"

section \<open>Sequences of calls and example states\<close>



text \<open>A factory with nothing in it, and a creator that does what \<open>cube.js\<close> does for
  a node without \<open>val\<close>, \<open>color\<close> or \<open>opacity\<close>: the geometry under the key
  \<open>cube_4\<close>, the material under \<open>lambert_#ffffaa_0.75\<close>, both through the caches,
  and a new visible mesh of the two.\<close>

definition empty_world :: world where
  "empty_world = \<lparr> meshes = (\<lambda>_. \<lparr> geometry = None, mesh_mat = NoMaterial, visible = False \<rparr>),
     disposed = [] \<rparr>"

definition empty_factory :: factory where
  "empty_factory = \<lparr> typeRegistry = Map.empty, objectPools = [], activeObjects = Map.empty,
     res = \<lparr> geometryCache = [], materialCache = [], the_world = empty_world \<rparr> \<rparr>"

definition new_resource :: "ref \<Rightarrow> createFn" where
  "new_resource r = (\<lambda>w. (Some r, w))"

definition cube_create :: creator where
  "cube_create n r =
     (case getGeometry (StrKey ''cube_4'') (new_resource 10) r of
        (None, r1) \<Rightarrow> (None, r1)
      | (Some g, r1) \<Rightarrow>
         (case getMaterial (StrKey ''lambert_#ffffaa_0.75'') (new_resource 20) r1 of
            (None, r2) \<Rightarrow> (None, r2)
          | (Some m, r2) \<Rightarrow>
             (Some (100 + node_ref n),
              r2\<lparr>the_world := (the_world r2)\<lparr>meshes := (meshes (the_world r2))
                (100 + node_ref n := \<lparr> geometry = Some g, mesh_mat = OneMaterial m, visible = True \<rparr>)\<rparr>\<rparr>)))"

definition cube_node :: "nat \<Rightarrow> node" where
  "cube_node i = \<lparr> node_ref = i, node_id = Some (NumId (int i)),
     attrs = [nodeThreeObjectType \<mapsto> ''cube''] \<rparr>"

text \<open>\<open>registerType('cube', create)\<close>; then \<open>createObject\<close> for node 1; then
  \<open>releaseObject(1)\<close>.\<close>

definition with_cube :: factory where
  "with_cube = (case registerType empty_factory ''cube'' cube_create of
                  Inr f \<Rightarrow> f | Inl _ \<Rightarrow> empty_factory)"

definition cube_active :: factory where
  "cube_active = snd (createObject with_cube (cube_node 1) nodeThreeObjectType)"

definition cube_pooled :: factory where
  "cube_pooled = releaseObject cube_active (IdKey (NumId 1))"

text \<open>
  Pools exist for registered types only: an invariant of the factory.
\<close>

definition pools_registered :: "factory \<Rightarrow> bool" where
  "pools_registered f = (\<forall>ty. has (objectPools f) ty \<longrightarrow> typeRegistry f ty \<noteq> None)"

text \<open>
  A manager with three registered types. \<open>test\<close> is the test animation of the
  repository's test suite: its update counts its calls and records the
  \<open>deltaTime\<close> and the transition progress it was given (the test's \<open>init\<close> also
  stores the options in the state, which is left out). \<open>grow\<close> writes the scale,
  the rotation and the position of its target and, if the target has a material,
  its emissive colour, emissive intensity and opacity; the update of \<open>broken\<close>
  throws. Every scene object starts as the mock object of the test suite, except
  object 3, which has a material.
\<close>

definition vec :: "rat \<Rightarrow> rat \<Rightarrow> rat \<Rightarrow> vec3" where
  "vec x y z = \<lparr> vx = Fin x, vy = Fin y, vz = Fin z \<rparr>"

definition plain_object :: object3d where
  "plain_object = \<lparr> scale = vec 1 1 1, rotation = vec 0 0 0, position = vec 0 0 0, material = None \<rparr>"

definition lit_material :: material where
  "lit_material = \<lparr> emissive = Some \<lparr> red = Fin 0, green = Fin 0, blue = Fin 0 \<rparr>,
     emissiveIntensity = Some (Fin 1), opacity = Some (Fin (3 / 4)),
     color = Some \<lparr> red = Fin 1, green = Fin 1, blue = Fin (2 / 3) \<rparr> \<rparr>"

definition lit_object :: object3d where
  "lit_object = plain_object\<lparr>material := Some lit_material\<rparr>"

definition update_count :: "anim_state \<Rightarrow> jsnum" where
  "update_count st = (case st ''updateCount'' of Some (VNum (Fin n)) \<Rightarrow> Fin n
      | Some (VNum PInf) \<Rightarrow> PInf | Some (VNum NInf) \<Rightarrow> NInf | _ \<Rightarrow> Fin 0)"

definition test_animation :: anim_type where
  "test_animation =
     \<lparr> update = (\<lambda>obj st deltaTime opts tp.
         Returned obj (st(''updateCount'' \<mapsto> VNum (jadd (update_count st) (Fin 1)),
                          ''lastDeltaTime'' \<mapsto> VNum deltaTime,
                          ''lastTransitionProgress'' \<mapsto> VNum tp))),
       defaultOptions = no_options\<lparr>extra := [''testOption'' \<mapsto> VStr ''default'']\<rparr>,
       init = Some (\<lambda>obj opts. Returned obj [''initialized'' \<mapsto> VBool True]),
       cleanup = Some (\<lambda>obj st opts. obj) \<rparr>"

definition grow_animation :: anim_type where
  "grow_animation =
     \<lparr> update = (\<lambda>obj st deltaTime opts tp.
         Returned (obj\<lparr>scale := vec 2 2 2, rotation := vec 0 1 0, position := vec 5 0 0,
                       material := map_option
                         (\<lambda>mat. mat\<lparr>emissive := Some \<lparr> red = Fin 1, green = Fin 1, blue = Fin 1 \<rparr>,
                                     emissiveIntensity := Some (Fin 2), opacity := Some (Fin 0)\<rparr>)
                         (material obj)\<rparr>) st),
       defaultOptions = no_options,
       init = None,
       cleanup = None \<rparr>"

definition broken_animation :: anim_type where
  "broken_animation =
     \<lparr> update = (\<lambda>obj st deltaTime opts tp. Threw obj),
       defaultOptions = no_options,
       init = None,
       cleanup = None \<rparr>"

definition example_manager :: manager where
  "example_manager =
     \<lparr> animationTypes = [''test'' \<mapsto> test_animation, ''grow'' \<mapsto> grow_animation,
         ''broken'' \<mapsto> broken_animation],
       animatedObjects = [],
       objectAnimations = Map.empty,
       animationIdCounter = 0,
       objects = (\<lambda>_. plain_object)(3 := lit_object) \<rparr>"

definition state_of :: "manager + manager \<times> int \<Rightarrow> manager" where
  "state_of r = (case r of Inl s \<Rightarrow> s | Inr (s, i) \<Rightarrow> s)"

definition once_options :: anim_options where
  "once_options = no_options\<lparr>loop := Some False, duration := Some (Fin 1),
     transitionDuration := Some (Fin (1 / 5))\<rparr>"

definition once_started :: manager where
  "once_started = state_of (startAnimation example_manager (Some 1) ''test'' once_options 0)"

text \<open>
  Object 1 with a running \<open>grow\<close>; object 3 with one; object 1 with \<open>grow\<close> and
  then \<open>test\<close>; with a \<open>test\<close>
  started with a transition of half a second; and with \<open>test\<close>, \<open>broken\<close> and
  \<open>grow\<close> while object 2 runs a \<open>test\<close> of its own.
\<close>

definition grow_started :: manager where
  "grow_started = state_of (startAnimation example_manager (Some 1) ''grow'' no_options 0)"

definition lit_started :: manager where
  "lit_started = state_of (startAnimation example_manager (Some 3) ''grow'' no_options 0)"

definition both_started :: manager where
  "both_started = state_of (startAnimation grow_started (Some 1) ''test'' no_options 0)"

definition half_second :: anim_options where
  "half_second = no_options\<lparr>transitionDuration := Some (Fin (1 / 2))\<rparr>"

definition test_started :: manager where
  "test_started = state_of (startAnimation example_manager (Some 1) ''test'' half_second 0)"

definition three_started :: manager where
  "three_started =
     state_of (startAnimation
       (state_of (startAnimation
         (state_of (startAnimation
           (state_of (startAnimation example_manager (Some 1) ''test'' no_options 0))
           (Some 1) ''broken'' no_options 0))
         (Some 1) ''grow'' no_options 0))
       (Some 2) ''test'' no_options 0)"

text \<open>
  The instances of a type can be deleted from every list (\<open>purge\<close>), and so can
  the stopping instances (\<open>drop_stopping\<close>); both are used to say what an
  operation does not depend on. \<open>mark_stopping\<close> is what a stop without
  \<open>immediate\<close> does to an instance that the name selects. An update that
  \<open>never_throws\<close> returns on every call. \<open>snapshot_inv\<close> says of a list that at
  most one instance of \<open>T\<close> is running in it and that its snapshot is \<open>iv\<close>.
\<close>

definition purge :: "string \<Rightarrow> manager \<Rightarrow> manager" where
  "purge n s = s\<lparr>objectAnimations := (\<lambda>ob. map_option (filter (\<lambda>a. name a \<noteq> n)) (objectAnimations s ob))\<rparr>"





section \<open>The node object factory: caches\<close>

lemmas factory_example_defs = empty_world_def empty_factory_def new_resource_def cube_create_def
  cube_node_def with_cube_def cube_active_def cube_pooled_def nodeThreeObjectType_def

lemmas factory_defs = registerType_def createObject_def releaseObject_def unregisterType_def
  getGeometry_def getMaterial_def has_def node_key_of_def set_visible_def dispose_pool_def
  disposeObject_def dispose_resource_def clearPools_def clear_def









section \<open>The node object factory: pools\<close>

text \<open>
  Every operation of the factory keeps the invariant, which holds of the empty
  factory: a type that has a pool is registered.
\<close>

lemma map_of_emptied:
  "map_of (map (\<lambda>(typeName, pool). (typeName, [])) m) k = map_option (\<lambda>_. []) (map_of m k)"
  by (induction m) auto

lemma pools_registered_preserved:
  assumes "pools_registered f"
  shows "registerType f ty c = Inr f' \<Longrightarrow> pools_registered f'"
    and "pools_registered (fst (unregisterType f ty))"
    and "pools_registered (snd (createObject f n ta))"
    and "pools_registered (releaseObject f k)"
    and "pools_registered (clearPools f)"
    and "pools_registered (clear f)"
    and "pools_registered (disposeCache f)"
    and "pools_registered (dispose f)"
proof -
  note defs = pools_registered_def has_def update_conv' delete_conv' map_of_emptied Let_def
  show "registerType f ty c = Inr f' \<Longrightarrow> pools_registered f'"
    using assms by (auto simp: registerType_def defs split: if_splits)
  show "pools_registered (fst (unregisterType f ty))"
    using assms by (auto simp: unregisterType_def defs split: option.splits)
  show "pools_registered (snd (createObject f n ta))"
    using assms
    by (auto simp: createObject_def defs split: option.splits list.splits prod.splits if_splits)
  show "pools_registered (releaseObject f k)"
    using assms
    by (auto simp: releaseObject_def defs split: option.splits prod.splits if_splits)
  show "pools_registered (clearPools f)"
    using assms by (auto simp: clearPools_def defs)
  show "pools_registered (clear f)"
    by (simp add: clear_def clearPools_def defs)
  show "pools_registered (disposeCache f)"
    using assms by (simp add: disposeCache_def defs)
  show "pools_registered (dispose f)"
    by (simp add: dispose_def disposeCache_def clear_def clearPools_def defs)
qed

lemma pools_registered_empty: "pools_registered empty_factory"
  by (simp add: pools_registered_def empty_factory_def has_def)






section \<open>The node object factory: teardown\<close>

lemma disposed_foldl:
  "g \<in> set (disposed w) \<Longrightarrow> g \<in> set (disposed (foldl (\<lambda>w r. dispose_resource r w) w rs))"
  by (induction rs arbitrary: w) (simp_all add: dispose_resource_def)

text \<open>The caches are filled under string keys, so asking them for a geometry as a
  key never finds it: \<open>_disposeObject\<close> disposes the geometry of every object that
  has one, cached or not.\<close>

lemma disposeObject_string_keys:
  assumes "\<forall>k \<in> fst ` set (geometryCache f). \<exists>s. k = StrKey s"
    and "geometry (meshes (the_world f) obj) = Some g"
  shows "g \<in> set (disposed (the_world (disposeObject f obj)))"
proof -
  have "map_of (geometryCache f) (RefKey g) = None"
    using assms(1) by (force simp: map_of_eq_None_iff)
  then show ?thesis using assms(2)
    by (auto simp: disposeObject_def has_def Let_def dispose_resource_def
        split: mesh_material.splits
        intro!: disposed_foldl [unfolded dispose_resource_def])
qed

text \<open>
  Claim C3 asks that \<open>unregisterType\<close>, \<open>clearPools\<close> and \<open>clear\<close> never call \<open>dispose\<close>
  on a geometry or material that is stored in the caches. The code does call it:
  in the state below the pooled cube has geometry 10 and material 20, both stored
  in the caches (under their string keys) and not yet disposed, and each of the
  three operations disposes both.
\<close>

theorem pool_teardown_disposes_cached:
  "map_of (geometryCache (res cube_pooled)) (StrKey ''cube_4'') = Some 10 \<and>
   map_of (materialCache (res cube_pooled)) (StrKey ''lambert_#ffffaa_0.75'') = Some 20 \<and>
   geometry (meshes (the_world (res cube_pooled)) 101) = Some 10 \<and>
   mesh_mat (meshes (the_world (res cube_pooled)) 101) = OneMaterial 20 \<and>
   disposed (the_world (res cube_pooled)) = [] \<and>
   disposed (the_world (res (fst (unregisterType cube_pooled ''cube'')))) = [20, 10] \<and>
   disposed (the_world (res (clearPools cube_pooled))) = [20, 10] \<and>
   disposed (the_world (res (clear cube_pooled))) = [20, 10]"
  by (simp add: factory_example_defs factory_defs Let_def)

section \<open>The animation manager: the loops\<close>

lemmas manager_example_defs = vec_def plain_object_def lit_material_def lit_object_def
  lit_started_def update_count_def test_animation_def
  grow_animation_def broken_animation_def example_manager_def state_of_def once_options_def
  once_started_def
  grow_started_def both_started_def half_second_def test_started_def three_started_def

lemmas manager_defs = startAnimation_def stopAnimation_def isAnimating_def tick_def tick_object_def
  tick_instance_def transition_in_def stop_progress_def stop_complete_def fade_out_def
  expired_def check_duration_def advance_def cleanupAnimation_def run_cleanup_def restore_def
  restore_material_def capture_def spread_def over_def no_options_def base_options_def
  set_add_def set_delete_def num_of_def truthy_def jsub_def getEasing_def easing_names_def

text \<open>
  One pass of the outer loop of \<open>tick\<close> changes nothing of another object.
\<close>

lemma tick_object_types: "animationTypes (tick_object now dt s x) = animationTypes s"
  by (simp add: tick_object_def Let_def split: option.splits prod.splits)

lemma tick_object_other:
  "ob \<noteq> x \<Longrightarrow> objects (tick_object now dt s x) ob = objects s ob \<and>
     objectAnimations (tick_object now dt s x) ob = objectAnimations s ob"
  by (simp add: tick_object_def Let_def split: option.splits prod.splits)

lemma tick_object_at:
  assumes "objectAnimations s ob = Some anims"
    and "tick_animations (animationTypes s) now dt (objects s ob) anims = (obj', anims')"
  shows "objects (tick_object now dt s ob) ob = obj'"
    and "objectAnimations (tick_object now dt s ob) ob = (if anims' = [] then None else Some anims')"
    and "animatedObjects (tick_object now dt s ob) =
           (if anims' = [] then set_delete ob (animatedObjects s) else animatedObjects s)"
  using assms by (simp_all add: tick_object_def Let_def)

lemma tick_object_members:
  "set (animatedObjects (tick_object now dt s x)) \<subseteq> set (animatedObjects s)"
  "distinct (animatedObjects s) \<Longrightarrow> distinct (animatedObjects (tick_object now dt s x))"
  "ob \<noteq> x \<Longrightarrow> ob \<in> set (animatedObjects s) \<Longrightarrow> ob \<in> set (animatedObjects (tick_object now dt s x))"
  by (auto simp: tick_object_def Let_def set_delete_def distinct_removeAll split: option.splits prod.splits)


lemma foldl_tick_other:
  "ob \<notin> set os \<Longrightarrow> objects (foldl (tick_object now dt) s os) ob = objects s ob \<and>
     objectAnimations (foldl (tick_object now dt) s os) ob = objectAnimations s ob \<and>
     (ob \<in> set (animatedObjects s) \<longrightarrow> ob \<in> set (animatedObjects (foldl (tick_object now dt) s os)))"
  by (induction os arbitrary: s) (simp_all add: tick_object_other tick_object_members)


lemma foldl_tick_at:
  assumes "distinct os" "ob \<in> set os" "objectAnimations s ob = Some anims"
    and "tick_animations (animationTypes s) now dt (objects s ob) anims = (obj', anims')"
  shows "objects (foldl (tick_object now dt) s os) ob = obj' \<and>
         objectAnimations (foldl (tick_object now dt) s os) ob =
           (if anims' = [] then None else Some anims') \<and>
         (anims' \<noteq> [] \<longrightarrow> ob \<in> set (animatedObjects s) \<longrightarrow>
            ob \<in> set (animatedObjects (foldl (tick_object now dt) s os)))"
  using assms
proof (induction os arbitrary: s)
  case Nil
  then show ?case by simp
next
  case (Cons x xs)
  show ?case
  proof (cases "x = ob")
    case True
    have nin: "ob \<notin> set xs" using Cons.prems(1) True by simp
    note at = tick_object_at [OF Cons.prems(3,4)]
    show ?thesis
      using foldl_tick_other [OF nin, of now dt "tick_object now dt s ob"] at True
      by simp
  next
    case False
    have "distinct xs" "ob \<in> set xs" using Cons.prems(1,2) False by auto
    moreover have "objectAnimations (tick_object now dt s x) ob = Some anims"
      using tick_object_other [of ob x now dt s] False Cons.prems(3) by simp
    moreover have "tick_animations (animationTypes (tick_object now dt s x)) now dt
        (objects (tick_object now dt s x) ob) anims = (obj', anims')"
      using tick_object_other [of ob x now dt s] False Cons.prems(4) by (simp add: tick_object_types)
    ultimately have ih: "objects (foldl (tick_object now dt) (tick_object now dt s x) xs) ob = obj' \<and>
         objectAnimations (foldl (tick_object now dt) (tick_object now dt s x) xs) ob =
           (if anims' = [] then None else Some anims') \<and>
         (anims' \<noteq> [] \<longrightarrow> ob \<in> set (animatedObjects (tick_object now dt s x)) \<longrightarrow>
            ob \<in> set (animatedObjects (foldl (tick_object now dt) (tick_object now dt s x) xs)))"
      by (rule Cons.IH)
    then show ?thesis
      using tick_object_members(3) [of ob x s now dt] False by simp
  qed
qed

text \<open>
  What \<open>tick\<close> does to an animated object is the inner loop run on that object's own
  list, from the object as it was.
\<close>

lemma tick_at:
  assumes "distinct (animatedObjects s)" "ob \<in> set (animatedObjects s)"
    and "objectAnimations s ob = Some anims"
    and "tick_animations (animationTypes s) now dt (objects s ob) anims = (obj', anims')"
  shows "objects (tick s now dt) ob = obj'"
    and "objectAnimations (tick s now dt) ob = (if anims' = [] then None else Some anims')"
    and "anims' \<noteq> [] \<Longrightarrow> ob \<in> set (animatedObjects (tick s now dt))"
  using foldl_tick_at [OF assms(1,2,3,4)] assms(2) by (simp_all add: tick_def)


text \<open>
  The inner loop on a list with an instance \<open>a\<close> in it: the instances after \<open>a\<close>, then
  \<open>a\<close>, then those before it.
\<close>

lemma tick_animations_append:
  "tick_animations types now dt obj (pre @ post) =
     (case tick_animations types now dt obj post of
        (obj1, post') \<Rightarrow>
          (case tick_animations types now dt obj1 pre of
             (obj2, pre') \<Rightarrow> (obj2, pre' @ post')))"
  by (induction pre) (auto split: prod.splits option.splits)

lemma tick_animations_at:
  "tick_animations types now dt obj (pre @ a # post) =
     (case tick_animations types now dt obj post of
        (obj1, post') \<Rightarrow>
          (case tick_instance types now dt obj1 a of
             (obj2, kept) \<Rightarrow>
               (case tick_animations types now dt obj2 pre of
                  (obj3, pre') \<Rightarrow>
                    (obj3, pre' @ (case kept of None \<Rightarrow> [] | Some a' \<Rightarrow> [a']) @ post'))))"
  by (simp add: tick_animations_append [of _ _ _ _ pre] split: prod.splits option.splits)

text \<open>
  What the loop body keeps of an instance.
\<close>

lemma tick_instance_keeps:
  "tick_instance types now dt obj a = (obj', Some a') \<Longrightarrow>
   initialValues a' = initialValues a \<and> inst_id a' = inst_id a \<and> name a' = name a \<and>
   options a' = options a \<and> startTime a' = startTime a"
  by (auto simp: tick_instance_def advance_def check_duration_def fade_out_def transition_in_def
      Let_def split: option.splits if_splits call_result.splits)





section \<open>The animation manager: starting and stopping\<close>





















text \<open>
  A start on an object that already runs the type: no instance is added, the id of
  the running instance is returned, no function of the type is called, and the
  options of that instance become the type's defaults overlaid with the options
  of the call.
\<close>

lemma startAnimation_existing:
  assumes "animationTypes s T = Some ty" and "objectAnimations s ob = Some anims"
    and "find (\<lambda>a. name a = T \<and> \<not> stopping a) anims = Some e"
  shows "startAnimation s (Some ob) T opts now =
     Inr (s\<lparr>objectAnimations := (objectAnimations s)(ob \<mapsto>
            update_first (\<lambda>a. name a = T \<and> \<not> stopping a)
              (\<lambda>a. a\<lparr>options := spread (defaultOptions ty) opts\<rparr>) anims)\<rparr>,
          inst_id e)"
  using assms by (simp add: startAnimation_def Let_def)

text \<open>
  Claim C2 asks that this second start replace the options of the instance by the
  merge of the new options over the options it had resolved. The code returns the
  same id and starts nothing, but what it merges over is the defaults of the type
  alone. Below, \<open>test\<close> is started on object 1 with a \<open>transitionDuration\<close> of 1/2:
  the instance has id 1 and the resolved options carry \<open>transitionDuration\<close>,
  \<open>loop\<close>, \<open>duration\<close> and \<open>easingFn\<close>; merging no options over them would leave
  them as they are. A second start with no options returns 1, and afterwards the
  instance has none of the four; the next tick then computes \<open>NaN\<close> as its
  transition progress.
\<close>

theorem restart_drops_options:
  "map (\<lambda>a. (inst_id a, transitionDuration (options a), loop (options a), duration (options a),
              easingFn (options a)))
     (anims_of test_started 1) = [(1, Some (Fin (1 / 2)), Some True, Some (Fin 1), Some ''linear'')] \<and>
   map (\<lambda>a. (transitionDuration (spread (options a) no_options), loop (spread (options a) no_options)))
     (anims_of test_started 1) = [(Some (Fin (1 / 2)), Some True)] \<and>
   map_sum id snd (startAnimation test_started (Some 1) ''test'' no_options 1) = Inr 1 \<and>
   map (\<lambda>a. (inst_id a, transitionDuration (options a), loop (options a), duration (options a),
              easingFn (options a)))
     (anims_of (state_of (startAnimation test_started (Some 1) ''test'' no_options 1)) 1)
     = [(1, None, None, None, None)] \<and>
   map transitionProgress
     (anims_of (tick (state_of (startAnimation test_started (Some 1) ''test'' no_options 1))
        (11 / 10) (Fin (1 / 10))) 1) = [NaN]"
  by (simp add: manager_example_defs manager_defs anims_of_def update_first.simps Let_def)










section \<open>The animation manager: the tick\<close>

text \<open>
  Claim C5 asks that a non-looping instance with duration \<open>D\<close> and transition
  \<open>d\<close> be marked stopping by the first tick at which \<open>D\<close> has elapsed, and be
  removed \<open>d\<close> seconds after that. The code marks it, but the duration check runs
  again on every later tick, also when the instance is already stopping, and
  records the stop-start time anew: the transition out starts over at every tick
  and ends only when two ticks are at least \<open>d\<close> apart. Below \<open>D = 1\<close> and
  \<open>d = 1/5\<close>, the instance is started at time 0 and ticked at 1, 11/10, 6/5, 13/10
  and 7/5. It is marked stopping at 1 with stop-start 1; at 6/5, \<open>d\<close> seconds
  later, it is still tracked, with stop-start 6/5; and so it is at 7/5.
\<close>

theorem expired_stop_never_completes:
  "map (\<lambda>a. (inst_id a, loop (options a), duration (options a), transitionDuration (options a),
        startTime a, stopping a))
     (anims_of once_started 1) = [(1, Some False, Some (Fin 1), Some (Fin (1 / 5)), 0, False)] \<and>
   map (\<lambda>a. (inst_id a, stopping a, stopStartTime a))
     (anims_of (ticks once_started [(1, Fin (1 / 10))]) 1) = [(1, True, 1)] \<and>
   map (\<lambda>a. (inst_id a, stopping a, stopStartTime a))
     (anims_of (ticks once_started [(1, Fin (1 / 10)), (11 / 10, Fin (1 / 10)),
        (6 / 5, Fin (1 / 10))]) 1) = [(1, True, 6 / 5)] \<and>
   map (\<lambda>a. (inst_id a, stopping a, stopStartTime a))
     (anims_of (ticks once_started [(1, Fin (1 / 10)), (11 / 10, Fin (1 / 10)),
        (6 / 5, Fin (1 / 10)), (13 / 10, Fin (1 / 10)), (7 / 5, Fin (1 / 10))]) 1) = [(1, True, 7 / 5)]"
  by (simp add: manager_example_defs manager_defs anims_of_def Let_def)









lemma tick_instance_throws:
  assumes "types (name a) = Some ty" "\<not> stop_complete now (transition_in dt a)"
    and "update ty obj (state (advance now dt a)) dt (options (advance now dt a))
           (transitionProgress (advance now dt a)) = Threw obj'"
  shows "tick_instance types now dt obj a = (obj', None)"
  using assms by (simp add: tick_instance_def Let_def)

text \<open>
  Claim C4. Let the instance \<open>a\<close> stand in the list of an animated object between the
  instances \<open>pre\<close> and \<open>post\<close>, and let its update function throw when the tick
  calls it, leaving the object as \<open>obj2\<close>. The model of \<open>tick\<close> is a total function:
  nothing is thrown to the caller. After the tick the list of the object is what
  the loop made of \<open>post\<close> and of \<open>pre\<close>, without \<open>a\<close>; \<open>post\<close> was handled from
  the object as it was and \<open>pre\<close> from \<open>obj2\<close> itself, so neither the cleanup nor the
  restoration was applied on behalf of \<open>a\<close>. And every animated object, whatever
  happens on the others, ends as the loop run on its own list leaves it.
\<close>

theorem update_throw_isolated:
  assumes "distinct (animatedObjects s)" and "ob \<in> set (animatedObjects s)"
    and "objectAnimations s ob = Some (pre @ a # post)"
    and "animationTypes s (name a) = Some ty"
    and "tick_animations (animationTypes s) now dt (objects s ob) post = (obj1, post')"
    and "\<not> stop_complete now (transition_in dt a)"
    and "update ty obj1 (state (advance now dt a)) dt (options (advance now dt a))
           (transitionProgress (advance now dt a)) = Threw obj2"
    and "tick_animations (animationTypes s) now dt obj2 pre = (obj3, pre')"
  shows "objects (tick s now dt) ob = obj3 \<and>
         objectAnimations (tick s now dt) ob = (if pre' @ post' = [] then None else Some (pre' @ post')) \<and>
         (\<forall>ob' anims obj' anims'.
            ob' \<in> set (animatedObjects s) \<longrightarrow> objectAnimations s ob' = Some anims \<longrightarrow>
            tick_animations (animationTypes s) now dt (objects s ob') anims = (obj', anims') \<longrightarrow>
              objects (tick s now dt) ob' = obj' \<and>
              objectAnimations (tick s now dt) ob' = (if anims' = [] then None else Some anims'))"
proof -
  have t: "tick_instance (animationTypes s) now dt obj1 a = (obj2, None)"
    by (rule tick_instance_throws [of "animationTypes s", OF assms(4,6,7)])
  have "tick_animations (animationTypes s) now dt (objects s ob) (pre @ a # post) = (obj3, pre' @ post')"
    using assms(5,8) t by (simp add: tick_animations_at)
  from tick_at(1,2) [OF assms(1,2,3) this]
  have "objects (tick s now dt) ob = obj3"
    "objectAnimations (tick s now dt) ob = (if pre' @ post' = [] then None else Some (pre' @ post'))"
    by simp_all
  moreover have "\<forall>ob' anims obj' anims'.
            ob' \<in> set (animatedObjects s) \<longrightarrow> objectAnimations s ob' = Some anims \<longrightarrow>
            tick_animations (animationTypes s) now dt (objects s ob') anims = (obj', anims') \<longrightarrow>
              objects (tick s now dt) ob' = obj' \<and>
              objectAnimations (tick s now dt) ob' = (if anims' = [] then None else Some anims')"
    using tick_at(1,2) [OF assms(1)] by blast
  ultimately show ?thesis by blast
qed

text \<open>
  The statement at work: object 1 runs \<open>test\<close>, \<open>broken\<close> and \<open>grow\<close>, object 2 runs
  \<open>test\<close>. After one tick \<open>broken\<close> is gone, \<open>grow\<close> has grown the object, and both
  \<open>test\<close> instances have been updated once.
\<close>

theorem update_throw_witness:
  "map name (anims_of three_started 1) = [''test'', ''broken'', ''grow''] \<and>
   map name (anims_of (tick three_started (1 / 10) (Fin (1 / 10))) 1) = [''test'', ''grow''] \<and>
   map (\<lambda>a. state a ''updateCount'') (anims_of (tick three_started (1 / 10) (Fin (1 / 10))) 1)
     = [Some (VNum (Fin 1)), None] \<and>
   scale (objects (tick three_started (1 / 10) (Fin (1 / 10))) 1) = vec 2 2 2 \<and>
   map (\<lambda>a. state a ''updateCount'') (anims_of (tick three_started (1 / 10) (Fin (1 / 10))) 2)
     = [Some (VNum (Fin 1))]"
proof -
  let ?s = three_started
  let ?l = "anims_of ?s 1"
  let ?now = "1 / 10 :: rat"
  let ?dt = "Fin (1 / 10)"
  let ?pre = "take 1 ?l" and ?a = "?l ! 1" and ?post = "drop 2 ?l"
  let ?r1 = "tick_animations (animationTypes ?s) ?now ?dt (objects ?s 1) ?post"
  let ?r3 = "tick_animations (animationTypes ?s) ?now ?dt (fst ?r1) ?pre"
  have l: "map name ?l = [''test'', ''broken'', ''grow'']"
    by (simp add: manager_example_defs manager_defs anims_of_def Let_def)
  have 1: "distinct (animatedObjects ?s)" "1 \<in> set (animatedObjects ?s)"
    by (simp_all add: manager_example_defs manager_defs Let_def)
  have 2: "objectAnimations ?s 1 = Some (?pre @ ?a # ?post)"
    by (simp add: manager_example_defs manager_defs anims_of_def Let_def)
  have 3: "animationTypes ?s (name ?a) = Some broken_animation"
    by (simp add: manager_example_defs manager_defs anims_of_def Let_def)
  have 4: "?r1 = (fst ?r1, snd ?r1)" by simp
  have 5: "\<not> stop_complete ?now (transition_in ?dt ?a)"
    by (simp add: manager_example_defs manager_defs anims_of_def Let_def)
  have 6: "update broken_animation (fst ?r1) (state (advance ?now ?dt ?a)) ?dt
      (options (advance ?now ?dt ?a)) (transitionProgress (advance ?now ?dt ?a)) = Threw (fst ?r1)"
    by (simp add: broken_animation_def)
  have 7: "?r3 = (fst ?r3, snd ?r3)" by simp
  note t = update_throw_isolated [OF 1 2 3 4 5 6 7]
  have o2: "objectAnimations ?s 2 = Some (anims_of ?s 2)" "2 \<in> set (animatedObjects ?s)"
    by (simp_all add: manager_example_defs manager_defs anims_of_def Let_def)
  let ?r2 = "tick_animations (animationTypes ?s) ?now ?dt (objects ?s 2) (anims_of ?s 2)"
  have 8: "?r2 = (fst ?r2, snd ?r2)" by simp
  note t2 = t [THEN conjunct2, THEN conjunct2, rule_format, OF o2(2) o2(1) 8]
  have e3: "fst ?r3 = plain_object\<lparr>scale := vec 2 2 2, rotation := vec 0 1 0, position := vec 5 0 0\<rparr>"
    "map name (snd ?r3 @ snd ?r1) = [''test'', ''grow'']"
    "map (\<lambda>a. state a ''updateCount'') (snd ?r3 @ snd ?r1) = [Some (VNum (Fin 1)), None]"
    by (simp_all add: manager_example_defs manager_defs anims_of_def Let_def)
  have e2: "map (\<lambda>a. state a ''updateCount'') (snd ?r2) = [Some (VNum (Fin 1))]"
    by (simp add: manager_example_defs manager_defs anims_of_def Let_def)
  have a1: "anims_of (tick ?s ?now ?dt) 1 = snd ?r3 @ snd ?r1"
    using t [THEN conjunct2, THEN conjunct1] e3(2) by (auto simp: anims_of_def)
  have a2: "anims_of (tick ?s ?now ?dt) 2 = snd ?r2"
    using t2 [THEN conjunct2] e2 by (auto simp: anims_of_def)
  have sc: "scale (objects (tick ?s ?now ?dt) 1) = vec 2 2 2"
    using t [THEN conjunct1] e3(1) by simp
  show ?thesis
    unfolding a1 a2 using l e3 e2 sc by simp
qed

lemma tick_instance_unregistered:
  "types (name a) = None \<Longrightarrow> tick_instance types now dt obj a = (obj, None)"
  by (simp add: tick_instance_def)

lemma tick_animations_purge:
  "types n = None \<Longrightarrow>
   tick_animations types now dt obj (filter (\<lambda>a. name a \<noteq> n) anims) =
   tick_animations types now dt obj anims"
  by (induction anims) (auto simp: tick_instance_unregistered split: prod.splits)

lemma tick_instance_registered:
  "tick_instance types now dt obj a = (obj', Some a') \<Longrightarrow> types (name a') \<noteq> None"
  using tick_instance_keeps [of types now dt obj a obj' a']
  by (auto simp: tick_instance_def split: option.splits)

lemma tick_animations_registered:
  "tick_animations types now dt obj anims = (obj', anims') \<Longrightarrow>
   \<forall>a \<in> set anims'. types (name a) \<noteq> None"
proof (induction anims arbitrary: obj' anims')
  case Nil
  then show ?case by simp
next
  case (Cons a rest)
  obtain obj1 rest' where r: "tick_animations types now dt obj rest = (obj1, rest')"
    by (cases "tick_animations types now dt obj rest")
  obtain obj2 res where t: "tick_instance types now dt obj1 a = (obj2, res)"
    by (cases "tick_instance types now dt obj1 a")
  show ?case
    using Cons.IH [OF r] Cons.prems r t tick_instance_registered [of types now dt obj1 a obj2]
    by (cases res) auto
qed

lemma filter_registered:
  "types n = None \<Longrightarrow> \<forall>a \<in> set anims. types (name a) \<noteq> None \<Longrightarrow>
   filter (\<lambda>a. name a \<noteq> n) anims = anims"
  by (induction anims) auto

lemma tick_object_purge:
  assumes "animationTypes s n = None"
  shows "tick_object now dt (purge n s) x = purge n (tick_object now dt s x)"
proof (cases "objectAnimations s x")
  case None
  then show ?thesis by (simp add: tick_object_def purge_def)
next
  case (Some anims)
  obtain obj' anims' where t:
    "tick_animations (animationTypes s) now dt (objects s x) anims = (obj', anims')"
    by (cases "tick_animations (animationTypes s) now dt (objects s x) anims")
  have f: "filter (\<lambda>a. name a \<noteq> n) anims' = anims'"
    using filter_registered [of "animationTypes s" n, OF assms tick_animations_registered [OF t]] .
  have t': "tick_animations (animationTypes s) now dt (objects s x) (filter (\<lambda>a. name a \<noteq> n) anims)
      = (obj', anims')"
    using tick_animations_purge [of "animationTypes s" n, OF assms] t by simp
  show ?thesis
    using Some t t' f
    by (auto simp: tick_object_def purge_def Let_def fun_eq_iff)
qed

lemma foldl_tick_purge:
  "animationTypes s n = None \<Longrightarrow>
   foldl (tick_object now dt) (purge n s) os = purge n (foldl (tick_object now dt) s os)"
  by (induction os arbitrary: s) (simp_all add: tick_object_purge tick_object_types)

lemma tick_purge:
  "animationTypes s n = None \<Longrightarrow> tick (purge n s) now dt = purge n (tick s now dt)"
  using foldl_tick_purge [of s n now dt "animatedObjects s"]
  by (simp add: tick_def purge_def)

lemma tick_object_no_unregistered:
  "animationTypes s n = None \<Longrightarrow> \<forall>a \<in> set (anims_of (tick_object now dt s ob) ob). name a \<noteq> n"
proof (cases "objectAnimations s ob")
  case None
  then show ?thesis by (simp add: tick_object_def anims_of_def)
next
  case (Some anims)
  assume u: "animationTypes s n = None"
  obtain obj' anims' where t:
    "tick_animations (animationTypes s) now dt (objects s ob) anims = (obj', anims')"
    by (cases "tick_animations (animationTypes s) now dt (objects s ob) anims")
  have "anims_of (tick_object now dt s ob) ob = anims'"
    using tick_object_at(2) [OF Some t] by (simp add: anims_of_def)
  then show ?thesis using tick_animations_registered [OF t] u by auto
qed

lemma foldl_tick_no_unregistered:
  "ob \<in> set os \<Longrightarrow> animationTypes s n = None \<Longrightarrow>
   \<forall>a \<in> set (anims_of (foldl (tick_object now dt) s os) ob). name a \<noteq> n"
proof (induction os arbitrary: s)
  case Nil
  then show ?case by simp
next
  case (Cons x xs)
  show ?case
  proof (cases "ob \<in> set xs")
    case True
    then show ?thesis using Cons.IH [of "tick_object now dt s x"] Cons.prems(2)
      by (simp add: tick_object_types)
  next
    case False
    then have x: "x = ob" using Cons.prems(1) by simp
    have "anims_of (foldl (tick_object now dt) (tick_object now dt s ob) xs) ob =
          anims_of (tick_object now dt s ob) ob"
      using foldl_tick_other [OF False, of now dt "tick_object now dt s ob"]
      by (simp add: anims_of_def)
    then show ?thesis using tick_object_no_unregistered [OF Cons.prems(2), of now dt ob] x by simp
  qed
qed

lemma tick_animations_all_unregistered:
  "\<forall>a \<in> set anims. types (name a) = None \<Longrightarrow> tick_animations types now dt obj anims = (obj, [])"
  by (induction anims) (auto simp: tick_instance_unregistered)

text \<open>
  Claim C9. \<open>unregisterAnimation(n)\<close> changes the registry only: the instances, the
  objects and the set of animated objects are as before. The next tick behaves
  towards the instances of \<open>n\<close> as if they had been deleted beforehand: ticking
  and then deleting them gives the same state as deleting them and then ticking,
  so no update, cleanup or restoration is applied on their behalf. After the tick
  no animated object carries an instance of \<open>n\<close>; and an object all of whose
  instances were of \<open>n\<close> is exactly as it was, and is no longer tracked.
\<close>

theorem unregistered_removed_by_tick:
  "(let s' = fst (unregisterAnimation s n) in
      objectAnimations s' = objectAnimations s \<and> objects s' = objects s \<and>
      animatedObjects s' = animatedObjects s \<and>
      tick (purge n s') now dt = purge n (tick s' now dt) \<and>
      (\<forall>ob \<in> set (animatedObjects s). \<forall>a \<in> set (anims_of (tick s' now dt) ob). name a \<noteq> n) \<and>
      (distinct (animatedObjects s) \<longrightarrow> ob \<in> set (animatedObjects s) \<longrightarrow>
       objectAnimations s ob = Some anims \<longrightarrow> (\<forall>a \<in> set anims. name a = n) \<longrightarrow>
         objects (tick s' now dt) ob = objects s ob \<and> objectAnimations (tick s' now dt) ob = None))"
proof -
  let ?s' = "fst (unregisterAnimation s n)"
  have eq: "objectAnimations ?s' = objectAnimations s" "objects ?s' = objects s"
    "animatedObjects ?s' = animatedObjects s"
    and u: "animationTypes ?s' n = None"
    by (simp_all add: unregisterAnimation_def)
  have a: "tick (purge n ?s') now dt = purge n (tick ?s' now dt)"
    by (rule tick_purge [OF u])
  have b: "\<forall>ob \<in> set (animatedObjects s). \<forall>a \<in> set (anims_of (tick ?s' now dt) ob). name a \<noteq> n"
    using foldl_tick_no_unregistered [OF _ u, of _ "animatedObjects ?s'" now dt] eq(3)
    by (simp add: tick_def)
  have c: "distinct (animatedObjects s) \<longrightarrow> ob \<in> set (animatedObjects s) \<longrightarrow>
       objectAnimations s ob = Some anims \<longrightarrow> (\<forall>a \<in> set anims. name a = n) \<longrightarrow>
         objects (tick ?s' now dt) ob = objects s ob \<and> objectAnimations (tick ?s' now dt) ob = None"
  proof (intro impI)
    assume d: "distinct (animatedObjects s)" and m: "ob \<in> set (animatedObjects s)"
      and l: "objectAnimations s ob = Some anims" and all: "\<forall>a \<in> set anims. name a = n"
    have "\<forall>a \<in> set anims. animationTypes ?s' (name a) = None" using all u by simp
    then have t: "tick_animations (animationTypes ?s') now dt (objects ?s' ob) anims = (objects ?s' ob, [])"
      by (rule tick_animations_all_unregistered)
    show "objects (tick ?s' now dt) ob = objects s ob \<and> objectAnimations (tick ?s' now dt) ob = None"
      using tick_at(1,2) [OF _ _ _ t] d m l eq by simp
  qed
  show ?thesis unfolding Let_def using eq a b c by blast
qed

text \<open>
  The statement at work: \<open>grow\<close> has doubled the scale of object 1 and is then
  unregistered; the next tick drops the instance and leaves the scale doubled.
\<close>

theorem unregistered_witness:
  "scale (objects (tick grow_started (1 / 10) (Fin (1 / 10))) 1) = vec 2 2 2 \<and>
   scale (objects (tick (fst (unregisterAnimation (tick grow_started (1 / 10) (Fin (1 / 10))) ''grow''))
      (1 / 5) (Fin (1 / 10))) 1) = vec 2 2 2 \<and>
   objectAnimations (tick (fst (unregisterAnimation (tick grow_started (1 / 10) (Fin (1 / 10))) ''grow''))
      (1 / 5) (Fin (1 / 10))) 1 = None"
proof -
  let ?s = "tick grow_started (1 / 10) (Fin (1 / 10))"
  have 1: "distinct (animatedObjects ?s)" "1 \<in> set (animatedObjects ?s)"
    by (simp_all add: manager_example_defs manager_defs Let_def)
  have 2: "objectAnimations ?s 1 = Some (anims_of ?s 1)"
    by (simp add: manager_example_defs manager_defs anims_of_def Let_def)
  have 3: "\<forall>a \<in> set (anims_of ?s 1). name a = ''grow''"
    by (simp add: manager_example_defs manager_defs anims_of_def Let_def)
  have 4: "scale (objects ?s 1) = vec 2 2 2"
    by (simp add: manager_example_defs manager_defs Let_def)
  note t = unregistered_removed_by_tick [of ?s "''grow''" "1 / 5" "Fin (1 / 10)" 1 "anims_of ?s 1",
      unfolded Let_def, THEN conjunct2, THEN conjunct2, THEN conjunct2, THEN conjunct2,
      THEN conjunct2, THEN mp, OF 1(1), THEN mp, OF 1(2), THEN mp, OF 2, THEN mp, OF 3]
  show ?thesis using t 4 by simp
qed

end
